theory Spec2Isabelle
  imports Main "HOL-Library.Log_Nat"
begin

section \<open>Python values and errors\<close>

text \<open>
  The exceptions the modelled code can raise.  \<open>RoutineError\<close> stands for any exception
  that escapes a layout routine called through the selector.
\<close>

datatype py_error = ValueError | ZeroDivisionError | IndexError | OverflowError | RoutineError

section \<open>metar\_layouts.py: the layout selector\<close>

text \<open>
  The two module globals \<open>cycle_num\<close> and \<open>pref_cycle\<close> (both initialised to 0) are the
  selector's state; they survive every call, also one that raises.
\<close>

record selector_state =
  cycle_num :: int
  pref_cycle :: int

definition initial_state :: selector_state where
  "initial_state = \<lparr>cycle_num = 0, pref_cycle = 0\<rparr>"

text \<open>
  A layout routine draws on the canvas it is handed (type \<open>'c\<close>) and returns nothing;
  it either returns normally, leaving an updated canvas, or raises.
\<close>

type_synonym 'c routine = "'c \<Rightarrow> py_error + 'c"

text \<open>
  \<open>int(a)\<close> for a one-character string \<open>a\<close>.  Strings are lists of code points below
  256; among those exactly the ASCII digits are accepted by Python's \<open>int\<close>, every other
  character raises ValueError.
\<close>

definition is_digit :: "char \<Rightarrow> bool" where
  "is_digit a = (48 \<le> (of_char a :: nat) \<and> (of_char a :: nat) \<le> 57)"

definition int_of_char :: "char \<Rightarrow> py_error + int" where
  "int_of_char a = (if is_digit a then Inr (int (of_char a) - 48) else Inl ValueError)"

text \<open>
  \<open>p_layouts_lst = [int(a) for a in str(preferred_layouts)]\<close>: the comprehension
  converts the characters from left to right and stops at the first one that raises.
\<close>

fun p_layouts_lst :: "string \<Rightarrow> py_error + int list" where
  "p_layouts_lst [] = Inr []"
| "p_layouts_lst (a # s) =
     (case int_of_char a of
        Inl e \<Rightarrow> Inl e
      | Inr n \<Rightarrow> (case p_layouts_lst s of Inl e \<Rightarrow> Inl e | Inr ns \<Rightarrow> Inr (n # ns)))"

text \<open>
  \<open>cycle_layout\<close>.  The result pairs the outcome of the call (the exception raised, or
  the canvas after a normal return) with the globals after the call.  The \<open>print\<close>
  calls write to standard output only and are left out.
\<close>

definition cycle_layout ::
  "'c routine list \<Rightarrow> string \<Rightarrow> int \<Rightarrow> selector_state \<Rightarrow> 'c \<Rightarrow> (py_error + 'c) \<times> selector_state"
where
  "cycle_layout layout_list preferred_layouts use_preferred st c =
     (if use_preferred = 1 then
        (case p_layouts_lst preferred_layouts of
           Inl e \<Rightarrow> (Inl e, st)
         | Inr p \<Rightarrow>
             if p = [] then (Inr c, st)
             else
               let current_pref_index = pref_cycle st mod int (length p);
                   layout_index_to_use = p ! nat current_pref_index
               in if 0 \<le> layout_index_to_use \<and> layout_index_to_use < int (length layout_list)
                  then (case (layout_list ! nat layout_index_to_use) c of
                          Inl e \<Rightarrow> (Inl e, st)
                        | Inr c' \<Rightarrow> (Inr c', st\<lparr>pref_cycle := pref_cycle st + 1\<rparr>))
                  else (Inr c, st))
      else
        if length layout_list = 0 then (Inl ZeroDivisionError, st)
        else
          let current_cycle_index = cycle_num st mod int (length layout_list)
          in (case (layout_list ! nat current_cycle_index) c of
                Inl e \<Rightarrow> (Inl e, st)
              | Inr c' \<Rightarrow> (Inr c', st\<lparr>cycle_num := cycle_num st + 1\<rparr>)))"

text \<open>
  \<open>random_layout\<close>.  \<open>random.choice\<close> is the parameter \<open>choice\<close>: it is only called on a
  non-empty list.
\<close>

definition random_layout :: "('c routine list \<Rightarrow> 'c routine) \<Rightarrow> 'c routine list \<Rightarrow> 'c \<Rightarrow> py_error + 'c" where
  "random_layout choice layout_list c =
     (if layout_list = [] then Inr c else (choice layout_list) c)"

text \<open>
  The main loop calls the selector once per render cycle, each time with a fresh canvas
  and freshly fetched data (together the \<open>'c\<close> handed to the routine); an exception is
  caught by the loop, which then goes on to the next cycle.  \<open>cycle_calls\<close> makes one
  call for each element of \<open>cs\<close> and lists the outcomes in order.
\<close>

fun cycle_calls ::
  "'c routine list \<Rightarrow> string \<Rightarrow> int \<Rightarrow> 'c list \<Rightarrow> selector_state \<Rightarrow> (py_error + 'c) list \<times> selector_state"
where
  "cycle_calls layout_list preferred_layouts use_preferred [] st = ([], st)"
| "cycle_calls layout_list preferred_layouts use_preferred (c # cs) st =
     (case cycle_layout layout_list preferred_layouts use_preferred st c of
        (r, st') \<Rightarrow>
          (case cycle_calls layout_list preferred_layouts use_preferred cs st' of
             (rs, st'') \<Rightarrow> (r # rs, st'')))"

section \<open>metar\_layouts.py: relative wind angle\<close>

definition runway_number :: int where
  "runway_number = 18"

text \<open>\<open>while relative_angle_deg > 180: relative_angle_deg -= 360\<close>\<close>

function sub_360 :: "int \<Rightarrow> int" where
  "sub_360 r = (if r > 180 then sub_360 (r - 360) else r)"
  by pat_completeness auto
termination
  by (relation "measure (\<lambda>r. nat (r - 180))") auto

text \<open>\<open>while relative_angle_deg <= -180: relative_angle_deg += 360\<close>\<close>

function add_360 :: "int \<Rightarrow> int" where
  "add_360 r = (if r \<le> - 180 then add_360 (r + 360) else r)"
  by pat_completeness auto
termination
  by (relation "measure (\<lambda>r. nat (- 179 - r))") auto

definition relative_angle_deg :: "int \<Rightarrow> int" where
  "relative_angle_deg wind_direction =
     (let runway_heading = runway_number * 10
      in add_360 (sub_360 (wind_direction - runway_heading)))"

section \<open>metar\_main.py: sleep interval\<close>

definition sleep_interval :: "int \<Rightarrow> string \<Rightarrow> int" where
  "sleep_interval interval flightcategory =
     (if interval \<noteq> 0 then interval
      else if flightcategory = ''VFR'' then 3600
      else if flightcategory = ''MVFR'' then 1800
      else if flightcategory = ''IFR'' then 1200
      else if flightcategory = ''LIFR'' then 600
      else 1800)"

section \<open>Python numbers and strings\<close>

text \<open>
  A Python \<open>float\<close> is a binary64 number.  The finite ones are the rationals in the range
  of \<open>fl\<close>, rounding to the nearest number with a 53-bit significand, ties to the even
  significand; every arithmetic operation on floats returns the rounded exact result.  The
  exponent range is not modelled: the magnitudes that occur in the wind layout are far
  from overflow and underflow.
\<close>

definition pow2 :: "int \<Rightarrow> rat" where
  "pow2 e = (if 0 \<le> e then 2 ^ nat e else 1 / 2 ^ nat (- e))"

text \<open>The binary exponent of a nonzero rational: \<open>pow2 (expo x) \<le> \<bar>x\<bar> < pow2 (expo x + 1)\<close>.\<close>

definition expo :: "rat \<Rightarrow> int" where
  "expo x =
     (case quotient_of \<bar>x\<bar> of
        (p, q) \<Rightarrow> let d = bitlen p - bitlen q in if pow2 d \<le> \<bar>x\<bar> then d else d - 1)"

definition round_half_even :: "rat \<Rightarrow> int" where
  "round_half_even y =
     (let f = \<lfloor>y\<rfloor>; d = y - of_int f
      in if d < 1 / 2 then f else if 1 / 2 < d then f + 1 else if even f then f else f + 1)"

definition fl :: "rat \<Rightarrow> rat" where
  "fl x =
     (if x = 0 then 0
      else let s = pow2 (expo x - 52) in of_int (round_half_even (x / s)) * s)"

datatype pyfloat = Finite rat | PosInf | NegInf | NaN

text \<open>\<open>wind_speed > 0\<close>\<close>

fun is_positive :: "pyfloat \<Rightarrow> bool" where
  "is_positive (Finite q) = (0 < q)"
| "is_positive PosInf = True"
| "is_positive NegInf = False"
| "is_positive NaN = False"

text \<open>\<open>int(round(x))\<close>: \<open>round\<close> raises on an infinity and on a NaN.\<close>

fun int_round :: "pyfloat \<Rightarrow> py_error + int" where
  "int_round (Finite q) = Inr (round_half_even q)"
| "int_round PosInf = Inl OverflowError"
| "int_round NegInf = Inl OverflowError"
| "int_round NaN = Inl ValueError"

text \<open>\<open>int(x)\<close> of a finite float truncates towards zero.\<close>

definition trunc :: "rat \<Rightarrow> int" where
  "trunc x = (if 0 \<le> x then \<lfloor>x\<rfloor> else \<lceil>x\<rceil>)"

text \<open>\<open>str(n)\<close> of an integer, \<open>s.zfill(w)\<close>, and the value of a string of ASCII digits.\<close>

function str_nat :: "nat \<Rightarrow> string" where
  "str_nat n =
     (if n < 10 then [char_of (48 + n)]
      else str_nat (n div 10) @ [char_of (48 + n mod 10)])"
  by pat_completeness auto
termination
  by (relation "measure (\<lambda>n. n)") auto

definition str_int :: "int \<Rightarrow> string" where
  "str_int i = (if i < 0 then CHR ''-'' # str_nat (nat (- i)) else str_nat (nat i))"

definition zfill :: "nat \<Rightarrow> string \<Rightarrow> string" where
  "zfill w s =
     (case s of
        [] \<Rightarrow> replicate w CHR ''0''
      | a # r \<Rightarrow>
          if a = CHR ''+'' \<or> a = CHR ''-'' then a # replicate (w - length s) CHR ''0'' @ r
          else replicate (w - length s) CHR ''0'' @ s)"

definition int_of_digits :: "string \<Rightarrow> int" where
  "int_of_digits s = foldl (\<lambda>acc a. acc * 10 + (int (of_char a) - 48)) 0 s"

text \<open>
  \<open>s.isdigit()\<close>.  Below code point 256 the characters it accepts are the ASCII digits
  and the superscript digits two, three and one (178, 179 and 185).
\<close>

definition isdigit_char :: "char \<Rightarrow> bool" where
  "isdigit_char a =
     (is_digit a \<or> (of_char a :: nat) = 178 \<or> (of_char a :: nat) = 179 \<or> (of_char a :: nat) = 185)"

definition isdigit :: "string \<Rightarrow> bool" where
  "isdigit s = (s \<noteq> [] \<and> list_all isdigit_char s)"

text \<open>
  \<open>int(s)\<close> of a string for which \<open>s.isdigit()\<close> holds.  It raises ValueError on a
  superscript digit, and on a string longer than the interpreter's limit on the digits of
  an integer string (\<open>sys.get_int_max_str_digits()\<close>, 4300 by default, 0 for no limit;
  leading zeros count).
\<close>

definition py_int :: "nat \<Rightarrow> string \<Rightarrow> py_error + int" where
  "py_int max_digits s =
     (if list_all is_digit s \<and> (max_digits = 0 \<or> length s \<le> max_digits)
      then Inr (int_of_digits s) else Inl ValueError)"

section \<open>metar\_layouts.py: the wind layout\<close>

subsection \<open>Canvas, display and decoded report\<close>

text \<open>
  The four gray levels of the display object (\<open>epd.GRAY1\<close> is white, \<open>epd.GRAY4\<close> black),
  the fonts of the \<open>config\<close> module, and the calls made on the drawing context, in the
  order they are made.
\<close>

datatype shade = GRAY1 | GRAY2 | GRAY3 | GRAY4

datatype font = Font16 | Font16b | Font24 | Font24b | Font36b | Font48b

type_synonym point = "int \<times> int"

datatype draw_cmd =
    Rectangle int int int int shade
  | Text point string shade font
  | Polygon "point list" shade
  | Line int int int int shade int

text \<open>
  What the layout takes from outside the two source files: the display's size, the text
  metrics of the drawing context (width and height of a string in a font), Python's
  \<open>float\<close> on a string (\<open>None\<close> when it raises), the cosine and sine the math library
  returns for an angle given in degrees, the footer line made from the clock, and the
  interpreter's limit on the digits of an integer string.
\<close>

record env =
  width :: int
  height :: int
  textsize :: "string \<Rightarrow> font \<Rightarrow> int \<times> int"
  py_float :: "string \<Rightarrow> pyfloat option"
  cos_sin :: "int \<Rightarrow> rat \<times> rat"
  last_update :: string
  max_str_digits :: nat

text \<open>
  The values bound by the \<open>try\<close> block at the head of \<open>layout_wind\<close>.  They come from
  \<open>metar_routines\<close>, so they are inputs here.  The four that are tested for truth
  (\<open>flightcategory\<close>, \<open>decoded_airport\<close>, \<open>decoded_wndir\<close>, \<open>decoded_wnspd\<close>) are
  strings, a missing value being the empty string, which the tests treat alike; the others
  are the strings they are formatted to.
\<close>

record fields =
  flightcategory :: string
  airport :: string
  decoded_wndir :: string
  decoded_wnspd :: string
  descript :: string
  cctype_lst :: "string list"
  ccheight_lst :: "string list"
  dis_unit :: string
  vis :: string
  vis_unit :: string
  tempf :: string
  temp_unit :: string

text \<open>
  The four ways through the \<open>try\<close> block: the METAR object is empty or invalid; it has
  no raw text; it decodes (\<open>airport\<close> then holds \<open>decoded_airport\<close>); decoding raises.
\<close>

datatype metar_outcome = MetarInvalid | NoRawText | Decoded fields | DecodeFailed

definition default_fields :: "string \<Rightarrow> string \<Rightarrow> fields" where
  "default_fields ap ds =
     \<lparr>flightcategory = ''N/A'', airport = ap, decoded_wndir = ''0'', decoded_wnspd = ''0'',
      descript = ds, cctype_lst = [], ccheight_lst = [], dis_unit = [],
      vis = ''N/A'', vis_unit = [], tempf = ''N/A'', temp_unit = []\<rparr>"

text \<open>\<open>None\<close> is the early \<open>return\<close>; otherwise what the block drew and the values it bound.\<close>

fun metar_data :: "metar_outcome \<Rightarrow> (draw_cmd list \<times> fields) option" where
  "metar_data MetarInvalid = None"
| "metar_data NoRawText =
     Some ([Text (10, 100) ''No METAR text'' GRAY4 Font24], default_fields ''N/A'' ''N/A'')"
| "metar_data (Decoded d) =
     Some ([], d\<lparr>airport := (if airport d \<noteq> [] then airport d else ''N/A'')\<rparr>)"
| "metar_data DecodeFailed =
     Some ([Text (10, 100) ''Error: Decode Fail'' GRAY4 Font24], default_fields ''Error'' ''Error'')"

subsection \<open>Header and text panels\<close>

definition header_cmds :: "env \<Rightarrow> fields \<Rightarrow> draw_cmd list" where
  "header_cmds e d =
     [Rectangle 0 0 (width e) 65 GRAY4,
      Text (10, 10) (take 10 (airport d)) GRAY1 Font48b]"

definition badge_cmds :: "env \<Rightarrow> string \<Rightarrow> draw_cmd list" where
  "badge_cmds e fc =
     (let fc_x = width e - 75; fc_y = 15
      in if fc \<noteq> [] \<and> fc \<noteq> ''N/A'' then
           (case textsize e fc Font24b of
              (fc_w, fc_h) \<Rightarrow>
                if fc = ''VFR'' \<or> fc = ''MVFR'' then [Text (fc_x, fc_y) fc GRAY1 Font24b]
                else
                  let box_margin = 5
                  in [Rectangle (fc_x - box_margin) (fc_y - box_margin)
                        (fc_x + fc_w + box_margin) (fc_y + fc_h + box_margin) GRAY1,
                      Text (fc_x, fc_y) fc GRAY4 Font24b])
         else [Text (fc_x, fc_y) ''N/A'' GRAY1 Font24b])"

text \<open>
  The two conversions of the wind; each sits in a \<open>try\<close> whose bare \<open>except\<close> gives 0.
\<close>

definition wind_direction :: "env \<Rightarrow> fields \<Rightarrow> int" where
  "wind_direction e d =
     (if decoded_wndir d \<noteq> [] \<and> isdigit (decoded_wndir d) then
        (case py_int (max_str_digits e) (decoded_wndir d) of Inr n \<Rightarrow> n | Inl err \<Rightarrow> 0)
      else 0)"

definition wind_speed :: "env \<Rightarrow> fields \<Rightarrow> pyfloat" where
  "wind_speed e d =
     (if decoded_wnspd d \<noteq> [] \<and> decoded_wnspd d \<noteq> ''Calm'' then
        (case py_float e (decoded_wnspd d) of Some v \<Rightarrow> v | None \<Rightarrow> Finite 0)
      else Finite 0)"

definition ws_unit_label :: "int \<Rightarrow> string" where
  "ws_unit_label wind_speed_units =
     (if wind_speed_units = 1 then ''mph'' else if wind_speed_units = 2 then ''kts'' else ''kts'')"

definition wind_info_cmds :: "env \<Rightarrow> fields \<Rightarrow> int \<Rightarrow> py_error + draw_cmd list" where
  "wind_info_cmds e d wind_speed_units =
     (case int_round (wind_speed e d) of
        Inl err \<Rightarrow> Inl err
      | Inr n \<Rightarrow>
          Inr [Text (10, 85)
                 (''Wind: '' @ zfill 3 (str_int (wind_direction e d)) @ [char_of (176 :: nat)]
                    @ '' at '' @ str_int n @ '' '' @ ws_unit_label wind_speed_units)
                 GRAY4 Font24b])"

definition weather_cmds :: "fields \<Rightarrow> draw_cmd list" where
  "weather_cmds d =
     (let left_x = 10; y_pos = 125; max_wx_len = 25
      in [Text (left_x, y_pos) ''Weather:'' GRAY4 Font16b,
          Text (left_x + 5, y_pos + 20) (take max_wx_len (descript d)) GRAY4 Font16]
         @ (if length (descript d) > max_wx_len
            then [Text (left_x + 5, y_pos + 40) (take max_wx_len (drop max_wx_len (descript d)))
                    GRAY4 Font16]
            else []))"

text \<open>
  The loop over the first two cloud layers; \<open>ccheight_lst[i]\<close> raises IndexError when the
  list of heights is shorter than the list of types.
\<close>

fun cloud_rows :: "fields \<Rightarrow> int \<Rightarrow> int \<Rightarrow> nat list \<Rightarrow> py_error + draw_cmd list" where
  "cloud_rows d left_x y_pos [] = Inr []"
| "cloud_rows d left_x y_pos (i # is) =
     (if i < length (ccheight_lst d) then
        (let cctype = cctype_lst d ! i;
             ccheight = ccheight_lst d ! i;
             height_str = (if isdigit ccheight then ccheight else ''N/A'');
             row = Text (left_x + 5, y_pos + 20 + int i * 20)
                     (cctype @ '' '' @ height_str @ dis_unit d) GRAY4 Font16
         in case cloud_rows d left_x y_pos is of
              Inl err \<Rightarrow> Inl err
            | Inr rows \<Rightarrow> Inr (row # rows))
      else Inl IndexError)"

definition clouds_cmds :: "fields \<Rightarrow> py_error + draw_cmd list" where
  "clouds_cmds d =
     (let left_x = 10; y_pos = 125 + 55
      in case (if cctype_lst d \<noteq> []
               then cloud_rows d left_x y_pos [0 ..< min 2 (length (cctype_lst d))]
               else Inr [Text (left_x + 5, y_pos + 20) ''Clear'' GRAY4 Font16]) of
           Inl err \<Rightarrow> Inl err
         | Inr rows \<Rightarrow> Inr (Text (left_x, y_pos) ''Clouds:'' GRAY4 Font16b # rows))"

definition visibility_cmds :: "fields \<Rightarrow> draw_cmd list" where
  "visibility_cmds d =
     (let left_x = 10; y_pos = 125 + 55 + 55
      in [Text (left_x, y_pos) ''Visibility:'' GRAY4 Font16b,
          Text (left_x + 5, y_pos + 20) (vis d @ vis_unit d) GRAY4 Font16])"

definition temperature_cmds :: "env \<Rightarrow> fields \<Rightarrow> draw_cmd list" where
  "temperature_cmds e d =
     (let right_x = width e - 100; y_pos = 125
      in [Text (right_x, y_pos) ''Temp:'' GRAY4 Font16b,
          Text (right_x + 5, y_pos + 20) (tempf d @ temp_unit d) GRAY4 Font16])"

subsection \<open>Wind arrow\<close>

text \<open>
  The taper of the arrow's shaft.  The two runway widths are local constants of
  \<open>layout_wind\<close> (85 and 50); they are arguments here, so that the guard on the
  denominator has a reading.  \<open>/\<close> on two integers is the correctly rounded quotient;
  in the guarded branch the ratio is the integer 1.  With widths of magnitude up to
  \<open>2 ^ 1000\<close> every intermediate result is zero or a normal binary64 number, so
  that rounding by \<open>fl\<close> is what Python computes.
\<close>

definition runway_taper_ratio :: "int \<Rightarrow> int \<Rightarrow> rat" where
  "runway_taper_ratio runway_width_near runway_width_far =
     (if runway_width_near \<noteq> 0 then fl (of_int runway_width_far / of_int runway_width_near)
      else 1)"

definition arrow_shaft_width_near :: int where
  "arrow_shaft_width_near = 14"

definition arrow_shaft_width_far :: "int \<Rightarrow> int \<Rightarrow> rat" where
  "arrow_shaft_width_far runway_width_near runway_width_far =
     fl (of_int arrow_shaft_width_near * runway_taper_ratio runway_width_near runway_width_far)"

definition near_half_w :: rat where
  "near_half_w = fl (of_int arrow_shaft_width_near / 2)"

definition far_half_w :: "int \<Rightarrow> int \<Rightarrow> rat" where
  "far_half_w runway_width_near runway_width_far =
     fl (arrow_shaft_width_far runway_width_near runway_width_far / 2)"

text \<open>The nested function \<open>rotate\<close>, with the variables it closes over as arguments.\<close>

definition rotate_point :: "rat \<Rightarrow> rat \<Rightarrow> int \<Rightarrow> int \<Rightarrow> rat \<times> rat \<Rightarrow> point" where
  "rotate_point cos_a sin_a arrow_center_x arrow_center_y p =
     (case p of
        (x, y) \<Rightarrow>
          let new_x = fl (fl (x * cos_a) - fl (y * sin_a));
              new_y = fl (fl (x * sin_a) + fl (y * cos_a))
          in (trunc (fl (of_int arrow_center_x + new_x)),
              trunc (fl (of_int arrow_center_y + new_y))))"

definition arrow_cmds :: "env \<Rightarrow> int \<Rightarrow> int \<Rightarrow> int \<Rightarrow> draw_cmd list" where
  "arrow_cmds e centerX centerY wd =
     (case cos_sin e (relative_angle_deg wd) of
        (cos_a, sin_a) \<Rightarrow>
          let runway_width_near = 85; runway_width_far = 50;
              arrow_length = 35; arrow_head_length = 18;
              shaft_len = arrow_length - arrow_head_length;
              arrow_head_width = 25;
              arrow_base_y_offset = - 25;
              arrow_center_x = centerX;
              arrow_center_y = centerY + arrow_base_y_offset;
              shaft_half_l = fl (of_int shaft_len / 2);
              p1 = (- far_half_w runway_width_near runway_width_far, - shaft_half_l);
              p2 = (far_half_w runway_width_near runway_width_far, - shaft_half_l);
              p3 = (near_half_w, shaft_half_l);
              p4 = (- near_half_w, shaft_half_l);
              rot = rotate_point cos_a sin_a arrow_center_x arrow_center_y;
              head_base_y = shaft_half_l;
              head_tip_y = fl (head_base_y + of_int arrow_head_length);
              head_half_w = fl (of_int arrow_head_width / 2);
              hp1 = (0, head_tip_y);
              hp2 = (- head_half_w, head_base_y);
              hp3 = (head_half_w, head_base_y)
          in [Polygon [rot p1, rot p2, rot p3, rot p4] GRAY3,
              Polygon [rot hp1, rot hp2, rot hp3] GRAY3])"

subsection \<open>Runway\<close>

definition runway_polygon :: "int \<Rightarrow> int \<Rightarrow> draw_cmd" where
  "runway_polygon centerX runway_base_y =
     (let runway_width_near = 85; runway_width_far = 50; runway_length = 55;
          rw_p1 = (centerX - runway_width_near div 2, runway_base_y + runway_length div 2);
          rw_p2 = (centerX - runway_width_far div 2, runway_base_y - runway_length div 2);
          rw_p3 = (centerX + runway_width_far div 2, runway_base_y - runway_length div 2);
          rw_p4 = (centerX + runway_width_near div 2, runway_base_y + runway_length div 2)
      in Polygon [rw_p1, rw_p2, rw_p3, rw_p4] GRAY4)"

text \<open>
  \<open>while current_y < y_start + 16\<close>: one dash per iteration, then
  \<open>current_y += dash_length + gap_length\<close>.
\<close>

function centerline :: "int \<Rightarrow> int \<Rightarrow> int \<Rightarrow> int \<Rightarrow> draw_cmd list" where
  "centerline centerX y_start y_end current_y =
     (let dash_length = 6; gap_length = 4
      in if current_y < y_start + 16
         then Line centerX current_y centerX (min (current_y + dash_length) y_end) GRAY1 2
                # centerline centerX y_start y_end (current_y + (dash_length + gap_length))
         else [])"
  by pat_completeness auto
termination
  by (relation "measure (\<lambda>(centerX, y_start, y_end, current_y). nat (y_start + 16 - current_y))") auto

definition centerline_cmds :: "int \<Rightarrow> int \<Rightarrow> draw_cmd list" where
  "centerline_cmds centerX runway_base_y =
     (let runway_length = 55; gap_length = 4;
          y_start = runway_base_y - runway_length div 2 + gap_length;
          y_end = runway_base_y + runway_length div 2 - gap_length
      in centerline centerX y_start y_end y_start)"

definition runway_number_cmds :: "env \<Rightarrow> int \<Rightarrow> int \<Rightarrow> draw_cmd list" where
  "runway_number_cmds e centerX runway_base_y =
     (let runway_length = 55;
          runway_text = zfill 2 (str_int runway_number)
      in case textsize e runway_text Font36b of
           (rn_w, rn_h) \<Rightarrow>
             let rn_x_orig = centerX - rn_w div 2;
                 rn_y_orig = runway_base_y + runway_length div 2 - rn_h - 6;
                 rn_x_adjusted = rn_x_orig;
                 rn_y_adjusted = rn_y_orig - 13
             in [Text (rn_x_adjusted, rn_y_adjusted) runway_text GRAY1 Font36b])"

definition threshold_offsets :: "int list" where
  "threshold_offsets = [- 25, - 18, - 11, - 4, 4, 11, 18, 25]"

definition threshold_cmds :: "int \<Rightarrow> int \<Rightarrow> draw_cmd list" where
  "threshold_cmds centerX runway_base_y =
     (let runway_length = 55;
          marker_y1 = runway_base_y + runway_length div 2 - 5;
          marker_y2 = runway_base_y + runway_length div 2
      in map (\<lambda>x_offset. Line (centerX + x_offset) marker_y1 (centerX + x_offset) marker_y2 GRAY1 1)
           threshold_offsets)"

definition footer_cmds :: "env \<Rightarrow> draw_cmd list" where
  "footer_cmds e =
     (case textsize e (last_update e) Font16 of
        (up_w, up_h) \<Rightarrow> [Text (10, height e - up_h - 5) (last_update e) GRAY4 Font16])"

subsection \<open>The layout routine\<close>

text \<open>
  \<open>layout_wind\<close>: the exception that escapes it, or the drawing calls it made, in order.
\<close>

definition layout_wind :: "env \<Rightarrow> metar_outcome \<Rightarrow> int \<Rightarrow> py_error + draw_cmd list" where
  "layout_wind e metar wind_speed_units =
     (case metar_data metar of
        None \<Rightarrow> Inr [Text (10, 100) ''Error: Invalid METAR data'' GRAY4 Font24]
      | Some (drawn, d) \<Rightarrow>
          (case wind_info_cmds e d wind_speed_units of
             Inl err \<Rightarrow> Inl err
           | Inr wind_info \<Rightarrow>
               (case clouds_cmds d of
                  Inl err \<Rightarrow> Inl err
                | Inr clouds \<Rightarrow>
                    let centerX = width e div 2;
                        centerY = 170;
                        runway_base_y = centerY + 35
                    in Inr (drawn
                            @ header_cmds e d
                            @ badge_cmds e (flightcategory d)
                            @ wind_info
                            @ weather_cmds d
                            @ clouds
                            @ visibility_cmds d
                            @ temperature_cmds e d
                            @ (if is_positive (wind_speed e d)
                               then arrow_cmds e centerX centerY (wind_direction e d) else [])
                            @ [runway_polygon centerX runway_base_y]
                            @ centerline_cmds centerX runway_base_y
                            @ runway_number_cmds e centerX runway_base_y
                            @ threshold_cmds centerX runway_base_y
                            @ footer_cmds e))))"

subsection \<open>Observing a drawing\<close>

text \<open>
  Predicates on drawing calls, used to state what a render contains: a text; a filled
  white rectangle (only the box behind the flight category is one); a polygon in the dark
  gray of the arrow (the runway is black); a line (only the runway markings are lines).
\<close>

fun is_text :: "draw_cmd \<Rightarrow> bool" where
  "is_text (Text p s f fn) = True"
| "is_text _ = False"

fun is_box :: "draw_cmd \<Rightarrow> bool" where
  "is_box (Rectangle x0 y0 x1 y1 f) = (f = GRAY1)"
| "is_box _ = False"

fun is_arrow :: "draw_cmd \<Rightarrow> bool" where
  "is_arrow (Polygon ps f) = (f = GRAY3)"
| "is_arrow _ = False"

fun is_line :: "draw_cmd \<Rightarrow> bool" where
  "is_line (Line x0 y0 x1 y1 f w) = True"
| "is_line _ = False"

text \<open>
  The cloud loop reads \<open>ccheight_lst[i]\<close> for each of the first two cloud types: it
  needs that many heights.
\<close>

definition clouds_ok :: "fields \<Rightarrow> bool" where
  "clouds_ok d = (min 2 (length (cctype_lst d)) \<le> length (ccheight_lst d))"

section \<open>Example inputs\<close>

text \<open>
  A 400 by 300 display whose text metrics give every character 12 by 20 pixels.
  \<open>py_float\<close> and \<open>cos_sin\<close> hold Python's values for the inputs the examples use:
  \<open>float('0')\<close>, \<open>float('5')\<close>, and the cosine and sine of \<open>math.radians(180)\<close>, which
  are -1.0 and 1.2246467991473532e-16.  The limit on integer strings is the default.
\<close>

definition example_env :: env where
  "example_env =
     \<lparr>width = 400, height = 300,
      textsize = (\<lambda>s f. (12 * int (length s), 20)),
      py_float = (\<lambda>s. if s = ''0'' then Some (Finite 0) else if s = ''5'' then Some (Finite 5) else None),
      cos_sin = (\<lambda>a. if a = 180 then (- 1, 4967757600021511 / 2 ^ 105) else (1, 0)),
      last_update = ''Last Updated at 12:00 '',
      max_str_digits = 4300\<rparr>"

text \<open>A report with variable wind direction (no digits) at 5 knots, category IFR.\<close>

definition vrb_report :: fields where
  "vrb_report =
     \<lparr>flightcategory = ''IFR'', airport = ''KSFO'', decoded_wndir = ''VRB'', decoded_wnspd = ''5'',
      descript = ''Light Rain'', cctype_lst = [''BKN'', ''OVC''], ccheight_lst = [''800'', ''1500''],
      dis_unit = ''ft'', vis = ''3'', vis_unit = ''sm'', tempf = ''15'', temp_unit = ''C''\<rparr>"

section \<open>Properties\<close>

subsection \<open>Relative angle\<close>

lemma sub_360_le: "sub_360 r \<le> 180"
  by (induction r rule: sub_360.induct) (subst sub_360.simps, simp)

lemma add_360_gt: "- 180 < add_360 r"
  by (induction r rule: add_360.induct) (subst add_360.simps, simp)

lemma add_360_le: "r \<le> 180 \<Longrightarrow> add_360 r \<le> 180"
proof (induction r rule: add_360.induct)
  case (1 r)
  then show ?case by (subst add_360.simps) simp
qed

text \<open>
  C1.  For every integer wind direction, with the runway heading 180 of the code, the
  relative angle left by the two while loops is greater than -180 and at most 180.
\<close>

theorem relative_angle_in_range:
  "- 180 < relative_angle_deg wd \<and> relative_angle_deg wd \<le> 180"
  unfolding relative_angle_deg_def Let_def
  using add_360_gt add_360_le [OF sub_360_le] by blast

text \<open>Wind from 180 degrees on runway 18: the relative angle is 0, no rotation.\<close>

theorem relative_angle_aligned: "relative_angle_deg 180 = 0"
  by (simp add: relative_angle_deg_def runway_number_def)

theorem relative_angle_in_range_witness:
  "- 180 < relative_angle_deg 0 \<and> relative_angle_deg 0 \<le> 180
   \<and> relative_angle_deg 0 = 180 \<and> relative_angle_deg 180 = 0 \<and> relative_angle_deg 1 = - 179"
  using relative_angle_in_range [of 0]
  by (simp add: relative_angle_deg_def runway_number_def)

subsection \<open>Sleep interval\<close>

text \<open>
  C6.  A nonzero interval override is the sleep duration, whatever the flight category;
  with override 0 the duration is 3600 for VFR, 1800 for MVFR, 1200 for IFR, 600 for LIFR
  and 1800 for every other category.
\<close>

theorem sleep_interval_selection:
  "(interval \<noteq> 0 \<longrightarrow> sleep_interval interval fc = interval)
   \<and> sleep_interval 45 fc = 45
   \<and> sleep_interval 0 ''VFR'' = 3600
   \<and> sleep_interval 0 ''MVFR'' = 1800
   \<and> sleep_interval 0 ''IFR'' = 1200
   \<and> sleep_interval 0 ''LIFR'' = 600
   \<and> (fc \<notin> {''VFR'', ''MVFR'', ''IFR'', ''LIFR''} \<longrightarrow> sleep_interval 0 fc = 1800)"
  by (simp add: sleep_interval_def)

theorem sleep_interval_selection_witness:
  "(45::int) \<noteq> 0 \<and> sleep_interval 45 ''N/A'' = 45
   \<and> ''N/A'' \<notin> {''VFR'', ''MVFR'', ''IFR'', ''LIFR''} \<and> sleep_interval 0 ''N/A'' = 1800"
  using sleep_interval_selection [of 45 "''N/A''"]
  by simp

subsection \<open>Layout selector\<close>






text \<open>
  C9.  In cycle-all mode an empty routine list makes \<open>cycle_layout\<close> raise
  ZeroDivisionError (the modulus by the list's length), while \<open>random_layout\<close> on an empty
  list returns normally and leaves the canvas as it was.
\<close>

theorem empty_layout_list:
  "use_preferred \<noteq> 1 \<Longrightarrow>
     cycle_layout [] pl use_preferred st c = (Inl ZeroDivisionError, st)
     \<and> random_layout choice [] c = Inr c"
  by (simp add: cycle_layout_def random_layout_def)

theorem empty_layout_list_witness:
  "(0::int) \<noteq> 1
   \<and> cycle_layout [] ''na'' 0 initial_state (0::nat) = (Inl ZeroDivisionError, initial_state)
   \<and> random_layout hd [] (0::nat) = Inr 0"
  using empty_layout_list [of 0 "''na''" initial_state "0::nat" hd]
  by simp

lemma p_layouts_lst_eq:
  "p_layouts_lst s =
     (if list_all is_digit s then Inr (map (\<lambda>a. int (of_char a) - 48) s) else Inl ValueError)"
  by (induction s) (simp_all add: int_of_char_def)

text \<open>
  C10.  The preferred-layouts string is converted character by character: when a list is
  produced it has one entry per character, every character is a decimal digit and every
  entry is that digit's value, between 0 and 9; when some character is not a digit, no list
  is produced and a cycle-preferred call raises ValueError, leaving the counters as they
  were.
\<close>

theorem preferred_layouts_parsing:
  "(p_layouts_lst s = Inr ns \<longrightarrow>
      length ns = length s \<and> list_all is_digit s
      \<and> ns = map (\<lambda>a. int (of_char a) - 48) s
      \<and> list_all (\<lambda>n. 0 \<le> n \<and> n \<le> 9) ns)
   \<and> (\<not> list_all is_digit s \<longrightarrow>
      p_layouts_lst s = Inl ValueError
      \<and> cycle_layout layout_list s 1 st c = (Inl ValueError, st))"
proof -
  have "list_all (\<lambda>n. 0 \<le> n \<and> n \<le> 9) (map (\<lambda>a. int (of_char a) - 48) s)"
    if "list_all is_digit s"
    using that by (induction s) (auto simp: is_digit_def)
  then show ?thesis
    by (auto simp: p_layouts_lst_eq cycle_layout_def)
qed

theorem preferred_layouts_parsing_witness:
  "p_layouts_lst ''20'' = Inr [2, 0]
   \<and> length [2, 0 :: int] = length ''20'' \<and> list_all is_digit ''20''
   \<and> list_all (\<lambda>n. 0 \<le> n \<and> n \<le> 9) [2, 0 :: int]
   \<and> \<not> list_all is_digit ''2,0''
   \<and> p_layouts_lst ''2,0'' = Inl ValueError
   \<and> cycle_layout [Inr, Inr, Inr] ''2,0'' 1 initial_state (0::nat) = (Inl ValueError, initial_state)"
  using preferred_layouts_parsing [of "''20''" "[2, 0]"]
    preferred_layouts_parsing [of "''2,0''" "[]" "[Inr, Inr, Inr]" initial_state "0::nat"]
  by (simp add: is_digit_def int_of_char_def)

text \<open>
  A cycle-preferred call whose selected index is in range: the index is the entry of the
  preferred list at the counter modulo the list's length, the routine at that index is
  run, and when it returns the counter has moved by one.
\<close>

theorem cycle_preferred_in_range:
  assumes "p_layouts_lst pl = Inr p" "p \<noteq> []"
    and "i = p ! nat (pref_cycle st mod int (length p))"
    and "0 \<le> i" "i < int (length layout_list)"
    and "(layout_list ! nat i) c = Inr c'"
  shows "cycle_layout layout_list pl 1 st c = (Inr c', st\<lparr>pref_cycle := pref_cycle st + 1\<rparr>)"
  using assms by (simp add: cycle_layout_def Let_def)

theorem cycle_preferred_in_range_witness:
  "cycle_layout [\<lambda>c. Inr (c @ [0]), \<lambda>c. Inr (c @ [1]), \<lambda>c. Inr (c @ [2::nat])] ''20'' 1
     \<lparr>cycle_num = 0, pref_cycle = 3\<rparr> [] =
   (Inr [0], \<lparr>cycle_num = 0, pref_cycle = 4\<rparr>)"
  using cycle_preferred_in_range [of "''20''" "[2, 0]" 0 "\<lparr>cycle_num = 0, pref_cycle = 3\<rparr>"
      "[\<lambda>c. Inr (c @ [0]), \<lambda>c. Inr (c @ [1]), \<lambda>c. Inr (c @ [2::nat])]" "[]" "[0]"]
  by (simp add: int_of_char_def is_digit_def)

lemma cycle_preferred_out_of_range:
  assumes "p_layouts_lst pl = Inr p" "p \<noteq> []"
    and "i = p ! nat (pref_cycle st mod int (length p))"
    and "i < 0 \<or> int (length layout_list) \<le> i"
  shows "cycle_layout layout_list pl 1 st c = (Inr c, st)"
  using assms by (auto simp: cycle_layout_def Let_def)

lemma cycle_preferred_example:
  "cycle_calls [\<lambda>c. Inr (c @ [0]), \<lambda>c. Inr (c @ [1]), \<lambda>c. Inr (c @ [2::nat])] ''20'' 1
     [[], [], [], []] initial_state =
   ([Inr [2], Inr [0], Inr [2], Inr [0]], \<lparr>cycle_num = 0, pref_cycle = 4\<rparr>)"
  by (simp add: cycle_layout_def initial_state_def int_of_char_def is_digit_def Let_def)

text \<open>
  C3.  The preferred counter moves only after a routine was run.  With the preferred
  string 50 and three routines, the first call selects index 5, which is out of range:
  nothing is drawn, nothing is raised, and the counter is still 0 after the call.  Every
  later call selects index 5 again, and the in-range entry 0 is never reached.
\<close>

theorem preferred_out_of_range_counter:
  "cycle_layout [r0, r1, r2] ''50'' 1 initial_state c = (Inr c, initial_state)
   \<and> pref_cycle (snd (cycle_layout [r0, r1, r2] ''50'' 1 initial_state c)) = 0
   \<and> cycle_calls [r0, r1, r2] ''50'' 1 [c0, c1, c2] initial_state =
       ([Inr c0, Inr c1, Inr c2], initial_state)"
  by (simp add: cycle_layout_def initial_state_def int_of_char_def is_digit_def Let_def)

subsection \<open>Floating-point rounding\<close>

lemma pow2_powi: "pow2 e = 2 powi e"
  by (simp add: pow2_def power_int_def inverse_eq_divide power_one_over)

lemma pow2_pos: "0 < pow2 e"
  by (simp add: pow2_powi)

lemma pow2_add: "pow2 (a + b) = pow2 a * pow2 b"
  by (simp add: pow2_powi power_int_add)

lemma pow2_Suc: "pow2 (e + 1) = 2 * pow2 e"
  by (simp add: pow2_add) (simp add: pow2_def)

lemma pow2_pred: "pow2 (e - 1) = pow2 e / 2"
  using pow2_Suc [of "e - 1"] by simp

lemma pow2_mono: "a \<le> b \<Longrightarrow> pow2 a \<le> pow2 b"
  by (simp add: pow2_powi power_int_increasing)

lemma pow2_nat: "pow2 (int n) = 2 ^ n"
  by (simp add: pow2_def)

lemma pow2_unique:
  assumes "pow2 e \<le> y" "y < pow2 (e + 1)" "pow2 e' \<le> y" "y < pow2 (e' + 1)"
  shows "e = e'"
proof (rule ccontr)
  assume "e \<noteq> e'"
  then consider "e + 1 \<le> e'" | "e' + 1 \<le> e" by linarith
  then show False
  proof cases
    case 1
    from pow2_mono [OF this] assms show False by linarith
  next
    case 2
    from pow2_mono [OF this] assms show False by linarith
  qed
qed

lemma expo_bounds:
  assumes "x \<noteq> 0"
  shows "pow2 (expo x) \<le> \<bar>x\<bar> \<and> \<bar>x\<bar> < pow2 (expo x + 1)"
proof -
  obtain p q where pq: "quotient_of \<bar>x\<bar> = (p, q)"
    by (cases "quotient_of \<bar>x\<bar>")
  have q: "0 < q" using quotient_of_denom_pos [OF pq] .
  have x: "\<bar>x\<bar> = of_int p / of_int q" using quotient_of_div [OF pq] .
  have p: "0 < p"
  proof -
    have "0 < \<bar>x\<bar>" using assms by simp
    then have "0 < (of_int p :: rat) / of_int q" using x by simp
    with q show ?thesis by (simp add: zero_less_divide_iff)
  qed
  define d where "d = bitlen p - bitlen q"
  have bp: "2 ^ nat (bitlen p - 1) \<le> p" "p < 2 ^ nat (bitlen p)"
    using bitlen_bounds [OF p] by auto
  have bq: "2 ^ nat (bitlen q - 1) \<le> q" "q < 2 ^ nat (bitlen q)"
    using bitlen_bounds [OF q] by auto
  have bp1: "1 \<le> bitlen p" using p by (simp add: bitlen_alt_def)
  have bq1: "1 \<le> bitlen q" using q by (simp add: bitlen_alt_def)
  have int_pow: "pow2 (int n) = of_int (2 ^ n)" for n
    by (simp add: pow2_nat)
  have P: "pow2 (bitlen p - 1) \<le> of_int p" "(of_int p :: rat) < pow2 (bitlen p)"
    using bp bp1 int_pow [of "nat (bitlen p - 1)"] int_pow [of "nat (bitlen p)"]
    by (simp_all only: of_int_le_iff of_int_less_iff int_nat_eq) simp_all
  have Q: "pow2 (bitlen q - 1) \<le> of_int q" "(of_int q :: rat) < pow2 (bitlen q)"
    using bq bq1 int_pow [of "nat (bitlen q - 1)"] int_pow [of "nat (bitlen q)"]
    by (simp_all only: of_int_le_iff of_int_less_iff int_nat_eq) simp_all
  have qpos: "0 < (of_int q :: rat)" using q by simp
  have lo: "pow2 (d - 1) < \<bar>x\<bar>"
  proof -
    have "pow2 (d - 1) * of_int q < pow2 (d - 1) * pow2 (bitlen q)"
      using Q(2) pow2_pos [of "d - 1"] by simp
    also have "\<dots> = pow2 (bitlen p - 1)"
      by (simp add: pow2_add [symmetric] d_def)
    also have "\<dots> \<le> of_int p" by (rule P(1))
    finally show ?thesis
      using qpos by (simp add: x pos_less_divide_eq)
  qed
  have hi: "\<bar>x\<bar> < pow2 (d + 1)"
  proof -
    have "of_int p < pow2 (bitlen p)" by (rule P(2))
    also have "\<dots> = pow2 (d + 1) * pow2 (bitlen q - 1)"
      by (simp add: pow2_add [symmetric] d_def)
    also have "\<dots> \<le> pow2 (d + 1) * of_int q"
      using Q(1) pow2_pos [of "d + 1"] by simp
    finally show ?thesis
      using qpos by (simp add: x pos_divide_less_eq)
  qed
  show ?thesis
  proof (cases "pow2 d \<le> \<bar>x\<bar>")
    case True
    then have "expo x = d" by (simp add: expo_def pq d_def Let_def)
    with True hi show ?thesis by simp
  next
    case False
    then have "expo x = d - 1" by (simp add: expo_def pq d_def Let_def)
    with False lo show ?thesis by simp
  qed
qed

lemma expo_eqI:
  assumes "pow2 e \<le> \<bar>x\<bar>" "\<bar>x\<bar> < pow2 (e + 1)"
  shows "expo x = e"
proof -
  have "x \<noteq> 0" using assms(1) pow2_pos [of e] by auto
  from expo_bounds [OF this] assms show ?thesis
    by (metis pow2_unique)
qed

lemma expo_half:
  assumes "x \<noteq> 0"
  shows "expo (x / 2) = expo x - 1"
proof (rule expo_eqI)
  from expo_bounds [OF assms]
  show "pow2 (expo x - 1) \<le> \<bar>x / 2\<bar>" "\<bar>x / 2\<bar> < pow2 (expo x - 1 + 1)"
    by (simp_all add: pow2_pred pow2_Suc)
qed

lemma fl_half: "fl (x / 2) = fl x / 2"
proof (cases "x = 0")
  case True
  then show ?thesis by (simp add: fl_def)
next
  case False
  define s where "s = pow2 (expo x - 52)"
  have "expo (x / 2) - 52 = (expo x - 52) - 1"
    using expo_half [OF False] by simp
  then have s: "pow2 (expo (x / 2) - 52) = s / 2"
    unfolding s_def by (simp only: pow2_pred)
  have "fl (x / 2) = of_int (round_half_even (x / 2 / (s / 2))) * (s / 2)"
    unfolding fl_def Let_def s using False by simp
  also have "x / 2 / (s / 2) = x / s"
    by simp
  finally have "fl (x / 2) = of_int (round_half_even (x / s)) * s / 2"
    by simp
  moreover have "fl x = of_int (round_half_even (x / s)) * s"
    unfolding fl_def Let_def s_def using False by simp
  ultimately show ?thesis by simp
qed

lemma round_half_even_of_int: "round_half_even (of_int n) = n"
  by (simp add: round_half_even_def)

lemma round_half_even_bounds:
  assumes "of_int a \<le> y" "y \<le> of_int b"
  shows "a \<le> round_half_even y \<and> round_half_even y \<le> b"
proof -
  have f: "a \<le> \<lfloor>y\<rfloor>" "\<lfloor>y\<rfloor> \<le> b"
    using assms by (simp_all add: le_floor_iff floor_le_iff)
  show ?thesis
  proof (cases "y = of_int \<lfloor>y\<rfloor>")
    case True
    then have "round_half_even y = \<lfloor>y\<rfloor>"
      by (metis round_half_even_of_int)
    with f show ?thesis by simp
  next
    case False
    then have "of_int \<lfloor>y\<rfloor> < y"
      by (metis of_int_floor_le order_le_less)
    with assms(2) have "(of_int \<lfloor>y\<rfloor> :: rat) < of_int b"
      by linarith
    then have "\<lfloor>y\<rfloor> < b"
      by (simp only: of_int_less_iff)
    with f show ?thesis
      by (auto simp: round_half_even_def Let_def)
  qed
qed

lemma pow2_shift: "pow2 (k + int m) = 2 ^ m * pow2 k"
  using pow2_add [of "int m" k] by (simp add: pow2_nat add.commute)

lemma pow2_shifts:
  "pow2 (k + 52) = 2 ^ 52 * pow2 k"
  "pow2 (k + 52 + 1) = 2 ^ 53 * pow2 k"
  "pow2 (k + 53) = 2 ^ 53 * pow2 k"
  "pow2 (k + 53 + 1) = 2 ^ 54 * pow2 k"
proof -
  have "k + 52 = k + int 52" "k + 52 + 1 = k + int 53" "k + 53 = k + int 53" "k + 53 + 1 = k + int 54"
    by simp_all
  then show "pow2 (k + 52) = 2 ^ 52 * pow2 k" "pow2 (k + 52 + 1) = 2 ^ 53 * pow2 k"
    "pow2 (k + 53) = 2 ^ 53 * pow2 k" "pow2 (k + 53 + 1) = 2 ^ 54 * pow2 k"
    by (simp_all only: pow2_shift)
qed

lemma fl_representable:
  assumes lo: "2 ^ 52 \<le> \<bar>n\<bar>" and hi: "\<bar>n\<bar> \<le> 2 ^ 53"
  shows "fl (of_int n * pow2 k) = of_int n * pow2 k"
proof -
  define y where "y = of_int n * pow2 k"
  have n0: "n \<noteq> 0" using lo by auto
  have k: "0 < pow2 k" by (rule pow2_pos)
  have y0: "y \<noteq> 0" using n0 k by (simp add: y_def)
  have absy: "\<bar>y\<bar> = of_int \<bar>n\<bar> * pow2 k"
    using k by (simp add: y_def abs_mult)
  have lo': "(2 ^ 52 :: rat) \<le> of_int \<bar>n\<bar>"
    using lo by (metis of_int_le_iff of_int_numeral of_int_power)
  show ?thesis
  proof (cases "\<bar>n\<bar> < 2 ^ 53")
    case True
    then have hi': "(of_int \<bar>n\<bar> :: rat) < 2 ^ 53"
      by (metis of_int_less_iff of_int_numeral of_int_power)
    have "expo y = k + 52"
    proof (rule expo_eqI)
      show "pow2 (k + 52) \<le> \<bar>y\<bar>"
        unfolding absy pow2_shifts using lo' k by (simp only: mult_le_cancel_right_pos)
      show "\<bar>y\<bar> < pow2 (k + 52 + 1)"
        unfolding absy pow2_shifts using hi' k by (simp only: mult_less_cancel_right_pos)
    qed
    then have ex: "expo y - 52 = k" by simp
    have "fl y = of_int (round_half_even (y / pow2 k)) * pow2 k"
      unfolding fl_def Let_def ex using y0 by simp
    also have "y / pow2 k = of_int n"
      using k by (simp add: y_def)
    finally show ?thesis
      by (simp add: round_half_even_of_int y_def)
  next
    case False
    with hi have n: "\<bar>n\<bar> = 2 ^ 53" by simp
    then have absn: "(of_int \<bar>n\<bar> :: rat) = 2 ^ 53"
      by (metis of_int_numeral of_int_power)
    obtain m where m: "n = 2 * m"
      using n by (cases "0 \<le> n") (auto intro: that [of "2 ^ 52"] that [of "- (2 ^ 52)"])
    have "expo y = k + 53"
    proof (rule expo_eqI)
      show "pow2 (k + 53) \<le> \<bar>y\<bar>"
        unfolding absy pow2_shifts absn by simp
      show "\<bar>y\<bar> < pow2 (k + 53 + 1)"
        unfolding absy pow2_shifts absn using k by simp
    qed
    then have ex: "expo y - 52 = k + 1" by simp
    have "fl y = of_int (round_half_even (y / pow2 (k + 1))) * pow2 (k + 1)"
      unfolding fl_def Let_def ex using y0 by simp
    also have "y / pow2 (k + 1) = of_int m"
      using k by (simp add: y_def m pow2_Suc)
    finally show ?thesis
      by (simp add: round_half_even_of_int y_def m pow2_Suc)
  qed
qed

lemma fl_idem: "fl (fl x) = fl x"
proof (cases "x = 0")
  case True
  then show ?thesis by (simp add: fl_def)
next
  case False
  define s where "s = pow2 (expo x - 52)"
  define n where "n = round_half_even (x / s)"
  have s: "0 < s" by (simp add: s_def pow2_pos)
  have flx: "fl x = of_int n * pow2 (expo x - 52)"
    using False by (simp add: fl_def Let_def n_def s_def)
  have "pow2 (expo x - 52 + 52) = 2 ^ 52 * s" "pow2 (expo x - 52 + 52 + 1) = 2 ^ 53 * s"
    unfolding s_def by (rule pow2_shifts)+
  then have e: "pow2 (expo x) = 2 ^ 52 * s" "pow2 (expo x + 1) = 2 ^ 53 * s"
    by simp_all
  from expo_bounds [OF False] have b: "2 ^ 52 * s \<le> \<bar>x\<bar>" "\<bar>x\<bar> < 2 ^ 53 * s"
    unfolding e by simp_all
  have t: "2 ^ 52 \<le> \<bar>x / s\<bar>" "\<bar>x / s\<bar> \<le> 2 ^ 53"
    using b s by (simp_all add: abs_divide pos_le_divide_eq pos_divide_le_eq)
  have "2 ^ 52 \<le> \<bar>n\<bar> \<and> \<bar>n\<bar> \<le> 2 ^ 53"
  proof (cases "0 \<le> x / s")
    case True
    with t have "of_int (2 ^ 52) \<le> x / s" "x / s \<le> of_int (2 ^ 53)"
      by simp_all
    from round_half_even_bounds [OF this] show ?thesis
      by (simp add: n_def)
  next
    case False
    with t have "of_int (- (2 ^ 53)) \<le> x / s" "x / s \<le> of_int (- (2 ^ 52))"
      by simp_all
    from round_half_even_bounds [OF this] show ?thesis
      by (simp add: n_def)
  qed
  then show ?thesis
    unfolding flx by (simp add: fl_representable)
qed

lemma fl_small: "fl 7 = 7" "fl 14 = 14" "fl (14 / 2) = 7"
  by code_simp+

subsection \<open>Arrow taper\<close>

lemma near_half_w_value: "near_half_w = 7"
  by (simp add: near_half_w_def arrow_shaft_width_near_def fl_small)

lemma far_half_w_eq:
  "far_half_w runway_width_near runway_width_far =
     fl (7 * runway_taper_ratio runway_width_near runway_width_far)"
proof -
  define r where "r = runway_taper_ratio runway_width_near runway_width_far"
  have "fl (fl (14 * r) / 2) = fl (fl (14 * r)) / 2"
    by (rule fl_half)
  also have "\<dots> = fl (14 * r) / 2"
    by (simp only: fl_idem)
  also have "\<dots> = fl (14 * r / 2)"
    by (rule fl_half [symmetric])
  also have "14 * r / 2 = 7 * r"
    by simp
  finally show ?thesis
    by (simp add: far_half_w_def arrow_shaft_width_far_def arrow_shaft_width_near_def r_def)
qed

text \<open>
  C2.  The far half-width of the shaft is the near half-width multiplied (as floats) by the
  taper ratio; the ratio is the float quotient of the runway's far width by its near width
  when the near width is not 0, and with a near width of 0 the far half-width equals the
  near half-width.
\<close>

theorem far_half_width_taper:
  "far_half_w runway_width_near runway_width_far =
     fl (near_half_w * runway_taper_ratio runway_width_near runway_width_far)
   \<and> (runway_width_near \<noteq> 0 \<longrightarrow>
        runway_taper_ratio runway_width_near runway_width_far =
          fl (of_int runway_width_far / of_int runway_width_near))
   \<and> (runway_width_near = 0 \<longrightarrow> far_half_w runway_width_near runway_width_far = near_half_w)"
  by (simp add: far_half_w_eq near_half_w_value runway_taper_ratio_def fl_small)

lemma far_half_w_value: "far_half_w 85 50 = 4636058439940217 / 1125899906842624"
  by code_simp

theorem far_half_width_taper_witness:
  "(85::int) \<noteq> 0
   \<and> far_half_w 85 50 = fl (near_half_w * runway_taper_ratio 85 50)
   \<and> runway_taper_ratio 85 50 = fl (of_int 50 / of_int 85)
   \<and> far_half_w 85 50 = 4636058439940217 / 1125899906842624
   \<and> far_half_w 0 50 = near_half_w"
proof -
  have nz: "(85::int) \<noteq> 0" by simp
  with far_half_width_taper [of 85 50]
  have "far_half_w 85 50 = fl (near_half_w * runway_taper_ratio 85 50)"
    "runway_taper_ratio 85 50 = fl (of_int 50 / of_int 85)"
    by blast+
  moreover from far_half_width_taper [of 0 50] have "far_half_w 0 50 = near_half_w"
    by blast
  ultimately show ?thesis
    using nz far_half_w_value by blast
qed

subsection \<open>Wind layout\<close>

lemma cloud_rows_Inr:
  "list_all (\<lambda>i. i < length (ccheight_lst d)) is \<Longrightarrow>
     \<exists>rows. cloud_rows d x y is = Inr rows \<and> list_all is_text rows"
  by (induction "is") (auto simp: Let_def)

lemma cloud_rows_text:
  "cloud_rows d x y is = Inr rows \<Longrightarrow> list_all is_text rows"
  by (induction "is" arbitrary: rows) (auto simp: Let_def split: if_splits sum.splits)

lemma clouds_cmds_text: "clouds_cmds d = Inr rows \<Longrightarrow> list_all is_text rows"
  by (auto simp: clouds_cmds_def Let_def split: if_splits sum.splits dest: cloud_rows_text)

lemma clouds_cmds_Inr: "clouds_ok d \<Longrightarrow> \<exists>rows. clouds_cmds d = Inr rows"
proof -
  assume ok: "clouds_ok d"
  have "list_all (\<lambda>i. i < length (ccheight_lst d)) [0 ..< min 2 (length (cctype_lst d))]"
    using ok by (auto simp: clouds_ok_def list_all_iff)
  from cloud_rows_Inr [OF this, of 10 "125 + 55"]
  obtain rows where "cloud_rows d 10 (125 + 55) [0 ..< min 2 (length (cctype_lst d))] = Inr rows"
    by blast
  then show ?thesis
    unfolding clouds_cmds_def Let_def by (cases "cctype_lst d = []") simp_all
qed

lemma wind_info_text: "wind_info_cmds e d u = Inr ws \<Longrightarrow> list_all is_text ws"
  by (auto simp: wind_info_cmds_def split: sum.splits)

lemma wind_info_Inr: "int_round (wind_speed e d) = Inr n \<Longrightarrow> \<exists>ws. wind_info_cmds e d u = Inr ws"
  by (simp add: wind_info_cmds_def)

lemma metar_data_text: "metar_data metar = Some (drawn, d) \<Longrightarrow> list_all is_text drawn"
  by (cases metar) auto

lemma centerline_cmds_eq:
  "centerline_cmds cx y = [Line cx (y - 23) cx (y - 17) GRAY1 2, Line cx (y - 13) cx (y - 7) GRAY1 2]"
  unfolding centerline_cmds_def Let_def
  by (subst centerline.simps, subst centerline.simps, subst centerline.simps) (simp add: Let_def)

lemma threshold_cmds_eq:
  "threshold_cmds cx y = map (\<lambda>x_offset. Line (cx + x_offset) (y + 22) (cx + x_offset) (y + 27) GRAY1 1) threshold_offsets"
  by (simp add: threshold_cmds_def Let_def)

lemma text_not: "is_text c \<Longrightarrow> \<not> is_line c \<and> \<not> is_arrow c \<and> \<not> is_box c"
  by (cases c) auto

lemma all_text_filter:
  "list_all is_text cs \<Longrightarrow> filter is_line cs = [] \<and> \<not> list_ex is_arrow cs \<and> \<not> list_ex is_box cs"
  by (induction cs) (auto dest: text_not)

lemma layout_wind_parts:
  assumes "metar_data metar = Some (drawn, d)"
    and "wind_info_cmds e d u = Inr ws" and "clouds_cmds d = Inr rows"
  shows "layout_wind e metar u =
     Inr (drawn @ header_cmds e d @ badge_cmds e (flightcategory d) @ ws @ weather_cmds d @ rows
          @ visibility_cmds d @ temperature_cmds e d
          @ (if is_positive (wind_speed e d) then arrow_cmds e (width e div 2) 170 (wind_direction e d) else [])
          @ [runway_polygon (width e div 2) 205]
          @ centerline_cmds (width e div 2) 205
          @ runway_number_cmds e (width e div 2) 205
          @ threshold_cmds (width e div 2) 205
          @ footer_cmds e)"
  using assms by (simp add: layout_wind_def Let_def)

lemma header_obs:
  "filter is_line (header_cmds e d) = [] \<and> \<not> list_ex is_arrow (header_cmds e d) \<and> \<not> list_ex is_box (header_cmds e d)"
  by (simp add: header_cmds_def)

lemma badge_obs:
  "filter is_line (badge_cmds e fc) = [] \<and> \<not> list_ex is_arrow (badge_cmds e fc)"
  by (simp add: badge_cmds_def Let_def split: prod.splits)

lemma badge_box:
  "list_ex is_box (badge_cmds e fc) \<longleftrightarrow> fc \<notin> {[], ''N/A'', ''VFR'', ''MVFR''}"
  by (simp add: badge_cmds_def Let_def split: prod.splits)

lemma weather_text: "list_all is_text (weather_cmds d)"
  by (simp add: weather_cmds_def Let_def)

lemma visibility_text: "list_all is_text (visibility_cmds d)"
  by (simp add: visibility_cmds_def Let_def)

lemma temperature_text: "list_all is_text (temperature_cmds e d)"
  by (simp add: temperature_cmds_def Let_def)

lemma runway_number_text: "list_all is_text (runway_number_cmds e cx y)"
  by (simp add: runway_number_cmds_def Let_def split: prod.splits)

lemma footer_text: "list_all is_text (footer_cmds e)"
  by (simp add: footer_cmds_def split: prod.splits)

lemma arrow_obs:
  "filter is_line (arrow_cmds e cx cy wd) = [] \<and> list_ex is_arrow (arrow_cmds e cx cy wd)
   \<and> \<not> list_ex is_box (arrow_cmds e cx cy wd) \<and> length (arrow_cmds e cx cy wd) = 2"
  by (simp add: arrow_cmds_def Let_def split: prod.splits)

lemma runway_obs:
  "\<not> is_line (runway_polygon cx y) \<and> \<not> is_arrow (runway_polygon cx y) \<and> \<not> is_box (runway_polygon cx y)"
  by (simp add: runway_polygon_def Let_def)

lemma marking_obs:
  "filter is_line (centerline_cmds cx y) = centerline_cmds cx y
   \<and> \<not> list_ex is_arrow (centerline_cmds cx y) \<and> \<not> list_ex is_box (centerline_cmds cx y)
   \<and> filter is_line (threshold_cmds cx y) = threshold_cmds cx y
   \<and> \<not> list_ex is_arrow (threshold_cmds cx y) \<and> \<not> list_ex is_box (threshold_cmds cx y)"
  by (simp add: centerline_cmds_eq threshold_cmds_eq threshold_offsets_def)


lemma layout_wind_observed:
  assumes md: "metar_data metar = Some (drawn, d)"
    and ws: "int_round (wind_speed e d) = Inr n"
    and ok: "clouds_ok d"
  shows "\<exists>cmds. layout_wind e metar u = Inr cmds
           \<and> filter is_line cmds
               = centerline_cmds (width e div 2) 205 @ threshold_cmds (width e div 2) 205
           \<and> (list_ex is_arrow cmds \<longleftrightarrow> is_positive (wind_speed e d))
           \<and> (list_ex is_box cmds \<longleftrightarrow> list_ex is_box (badge_cmds e (flightcategory d)))
           \<and> set (badge_cmds e (flightcategory d)) \<subseteq> set cmds
           \<and> runway_polygon (width e div 2) 205 \<in> set cmds"
proof -
  obtain wi where wi: "wind_info_cmds e d u = Inr wi"
    using wind_info_Inr [OF ws] by blast
  obtain rows where rows: "clouds_cmds d = Inr rows"
    using clouds_cmds_Inr [OF ok] by blast
  note texts = all_text_filter [OF metar_data_text [OF md]] all_text_filter [OF wind_info_text [OF wi]]
    all_text_filter [OF clouds_cmds_text [OF rows]] all_text_filter [OF weather_text]
    all_text_filter [OF visibility_text] all_text_filter [OF temperature_text]
    all_text_filter [OF runway_number_text] all_text_filter [OF footer_text]
  show ?thesis
    unfolding layout_wind_parts [OF md wi rows]
    by (simp add: texts header_obs badge_obs arrow_obs runway_obs marking_obs) blast
qed

text \<open>
  C8 (as amended).  On every render that gets past the check of the METAR object and
  completes (the wind speed is a finite number and the cloud heights are there), the lines
  drawn are exactly the two dashes of the centerline followed by the eight threshold ticks,
  whose horizontal offsets from the centerline are symmetric.
\<close>

theorem runway_markings:
  assumes "metar_data metar = Some (drawn, d)"
    and "int_round (wind_speed e d) = Inr n"
    and "clouds_ok d"
  shows "\<exists>cmds. layout_wind e metar u = Inr cmds
           \<and> filter is_line cmds =
               [Line (width e div 2) 182 (width e div 2) 188 GRAY1 2,
                Line (width e div 2) 192 (width e div 2) 198 GRAY1 2]
               @ map (\<lambda>x_offset. Line (width e div 2 + x_offset) 227 (width e div 2 + x_offset) 232 GRAY1 1)
                   threshold_offsets
           \<and> length (centerline_cmds (width e div 2) 205) = 2
           \<and> length (threshold_cmds (width e div 2) 205) = 8
           \<and> map uminus threshold_offsets = rev threshold_offsets"
proof -
  from layout_wind_observed [OF assms] obtain cmds where
    "layout_wind e metar u = Inr cmds"
    "filter is_line cmds = centerline_cmds (width e div 2) 205 @ threshold_cmds (width e div 2) 205"
    by blast
  then show ?thesis
    by (simp add: centerline_cmds_eq threshold_cmds_eq threshold_offsets_def)
qed

lemma example_env_sel:
  "width example_env = 400" "height example_env = 300"
  "textsize example_env s f = (12 * int (length s), 20)"
  "py_float example_env ''0'' = Some (Finite 0)"
  "py_float example_env ''5'' = Some (Finite 5)"
  by (simp_all add: example_env_def)

lemma no_raw_text_hyps:
  "metar_data NoRawText = Some ([Text (10, 100) ''No METAR text'' GRAY4 Font24], default_fields ''N/A'' ''N/A'')"
  "wind_speed example_env (default_fields ''N/A'' ''N/A'') = Finite 0"
  "int_round (wind_speed example_env (default_fields ''N/A'' ''N/A'')) = Inr 0"
  "clouds_ok (default_fields ''N/A'' ''N/A'')"
  by (simp_all add: wind_speed_def default_fields_def example_env_sel round_half_even_def clouds_ok_def)

lemma vrb_report_hyps:
  "metar_data (Decoded vrb_report) = Some ([], vrb_report)"
  "wind_speed example_env vrb_report = Finite 5"
  "int_round (wind_speed example_env vrb_report) = Inr 5"
  "clouds_ok vrb_report"
  "flightcategory vrb_report = ''IFR''"
  by (simp_all add: wind_speed_def vrb_report_def example_env_sel round_half_even_def clouds_ok_def)

theorem runway_markings_witness:
  "\<exists>cmds. layout_wind example_env NoRawText 0 = Inr cmds
      \<and> filter is_line cmds =
           [Line 200 182 200 188 GRAY1 2, Line 200 192 200 198 GRAY1 2,
            Line 175 227 175 232 GRAY1 1, Line 182 227 182 232 GRAY1 1,
            Line 189 227 189 232 GRAY1 1, Line 196 227 196 232 GRAY1 1,
            Line 204 227 204 232 GRAY1 1, Line 211 227 211 232 GRAY1 1,
            Line 218 227 218 232 GRAY1 1, Line 225 227 225 232 GRAY1 1]"
proof -
  from runway_markings [OF no_raw_text_hyps(1,3,4), of 0] obtain cmds where
    "layout_wind example_env NoRawText 0 = Inr cmds"
    "filter is_line cmds =
       [Line (width example_env div 2) 182 (width example_env div 2) 188 GRAY1 2,
        Line (width example_env div 2) 192 (width example_env div 2) 198 GRAY1 2]
       @ map (\<lambda>x_offset. Line (width example_env div 2 + x_offset) 227
                (width example_env div 2 + x_offset) 232 GRAY1 1) threshold_offsets"
    by blast
  then show ?thesis
    by (simp add: example_env_sel threshold_offsets_def)
qed

text \<open>
  A render with an empty or invalid METAR object returns after drawing its error text:
  no dash and no tick is drawn.
\<close>

theorem runway_markings_invalid_metar:
  "layout_wind example_env MetarInvalid 0 = Inr [Text (10, 100) ''Error: Invalid METAR data'' GRAY4 Font24]
   \<and> filter is_line [Text (10, 100) ''Error: Invalid METAR data'' GRAY4 Font24] = []"
  by (simp add: layout_wind_def)

text \<open>
  C4 (as amended).  On every render that gets past the check of the METAR object, with
  a finite wind speed and the cloud heights there, the layout completes; an arrow polygon
  is drawn exactly when the wind speed is greater than 0, so none is drawn at wind speed
  0; the runway trapezoid and its markings are drawn either way.  The wind direction has no
  part in it.
\<close>

theorem arrow_iff_wind_speed:
  assumes "metar_data metar = Some (drawn, d)"
    and "wind_speed e d = Finite q"
    and "clouds_ok d"
  shows "\<exists>cmds. layout_wind e metar u = Inr cmds
           \<and> (list_ex is_arrow cmds \<longleftrightarrow> 0 < q)
           \<and> Polygon [(width e div 2 - 42, 232), (width e div 2 - 25, 178),
                       (width e div 2 + 25, 178), (width e div 2 + 42, 232)] GRAY4 \<in> set cmds
           \<and> filter is_line cmds =
               [Line (width e div 2) 182 (width e div 2) 188 GRAY1 2,
                Line (width e div 2) 192 (width e div 2) 198 GRAY1 2]
               @ map (\<lambda>x_offset. Line (width e div 2 + x_offset) 227 (width e div 2 + x_offset) 232 GRAY1 1)
                   threshold_offsets"
proof -
  have "int_round (wind_speed e d) = Inr (round_half_even q)"
    using assms(2) by simp
  from layout_wind_observed [OF assms(1) this assms(3)] obtain cmds where
    "layout_wind e metar u = Inr cmds"
    "filter is_line cmds = centerline_cmds (width e div 2) 205 @ threshold_cmds (width e div 2) 205"
    "list_ex is_arrow cmds \<longleftrightarrow> is_positive (wind_speed e d)"
    "runway_polygon (width e div 2) 205 \<in> set cmds"
    by blast
  then show ?thesis
    using assms(2) by (simp add: centerline_cmds_eq threshold_cmds_eq runway_polygon_def Let_def)
qed

theorem arrow_iff_wind_speed_witness:
  "\<exists>cmds. layout_wind example_env NoRawText 0 = Inr cmds
      \<and> \<not> list_ex is_arrow cmds
      \<and> Polygon [(158, 232), (175, 178), (225, 178), (242, 232)] GRAY4 \<in> set cmds
      \<and> filter is_line cmds =
           [Line 200 182 200 188 GRAY1 2, Line 200 192 200 198 GRAY1 2,
            Line 175 227 175 232 GRAY1 1, Line 182 227 182 232 GRAY1 1,
            Line 189 227 189 232 GRAY1 1, Line 196 227 196 232 GRAY1 1,
            Line 204 227 204 232 GRAY1 1, Line 211 227 211 232 GRAY1 1,
            Line 218 227 218 232 GRAY1 1, Line 225 227 225 232 GRAY1 1]"
proof -
  from arrow_iff_wind_speed [OF no_raw_text_hyps(1,2,4), of 0] obtain cmds where
    "layout_wind example_env NoRawText 0 = Inr cmds"
    "list_ex is_arrow cmds \<longleftrightarrow> (0::rat) < 0"
    "Polygon [(width example_env div 2 - 42, 232), (width example_env div 2 - 25, 178),
              (width example_env div 2 + 25, 178), (width example_env div 2 + 42, 232)] GRAY4 \<in> set cmds"
    "filter is_line cmds =
       [Line (width example_env div 2) 182 (width example_env div 2) 188 GRAY1 2,
        Line (width example_env div 2) 192 (width example_env div 2) 198 GRAY1 2]
       @ map (\<lambda>x_offset. Line (width example_env div 2 + x_offset) 227
                (width example_env div 2 + x_offset) 232 GRAY1 1) threshold_offsets"
    by blast
  then show ?thesis
    by (simp add: example_env_sel threshold_offsets_def)
qed

text \<open>
  With the wind direction unavailable (no digits, so it counts as 0 degrees) and a wind
  speed of 5, the two arrow polygons are drawn.
\<close>

theorem arrow_drawn_without_direction:
  "\<not> isdigit (decoded_wndir vrb_report)
   \<and> wind_direction example_env vrb_report = 0
   \<and> is_positive (wind_speed example_env vrb_report)
   \<and> map_sum id (list_ex is_arrow) (layout_wind example_env (Decoded vrb_report) 2) = Inr True"
proof -
  from layout_wind_observed [OF vrb_report_hyps(1,3,4), of 2] obtain cmds where
    "layout_wind example_env (Decoded vrb_report) 2 = Inr cmds"
    "list_ex is_arrow cmds \<longleftrightarrow> is_positive (wind_speed example_env vrb_report)"
    by blast
  then show ?thesis
    by (simp add: vrb_report_hyps(2)) (simp add: vrb_report_def wind_direction_def isdigit_def isdigit_char_def is_digit_def)
qed

text \<open>
  C7 (as amended).  On every render that gets past the check of the METAR object and
  completes, the flight category is drawn on a filled white box exactly when it is a
  non-empty string other than N/A, VFR and MVFR (so for IFR and LIFR); VFR and MVFR are
  drawn as plain white text; an empty category and N/A are drawn as the plain white text
  N/A.
\<close>

theorem flight_category_badge:
  assumes "metar_data metar = Some (drawn, d)"
    and "int_round (wind_speed e d) = Inr n"
    and "clouds_ok d"
  shows "\<exists>cmds. layout_wind e metar u = Inr cmds
           \<and> (list_ex is_box cmds \<longleftrightarrow> flightcategory d \<notin> {[], ''N/A'', ''VFR'', ''MVFR''})
           \<and> set (badge_cmds e (flightcategory d)) \<subseteq> set cmds
           \<and> (flightcategory d \<in> {''VFR'', ''MVFR''} \<longrightarrow>
                badge_cmds e (flightcategory d) = [Text (width e - 75, 15) (flightcategory d) GRAY1 Font24b])
           \<and> (flightcategory d \<in> {[], ''N/A''} \<longrightarrow>
                badge_cmds e (flightcategory d) = [Text (width e - 75, 15) ''N/A'' GRAY1 Font24b])
           \<and> (flightcategory d \<notin> {[], ''N/A'', ''VFR'', ''MVFR''} \<longrightarrow>
                badge_cmds e (flightcategory d) =
                  [Rectangle (width e - 80) 10
                     (width e - 75 + fst (textsize e (flightcategory d) Font24b) + 5)
                     (15 + snd (textsize e (flightcategory d) Font24b) + 5) GRAY1,
                   Text (width e - 75, 15) (flightcategory d) GRAY4 Font24b])"
proof -
  from layout_wind_observed [OF assms] obtain cmds where
    "layout_wind e metar u = Inr cmds"
    "list_ex is_box cmds \<longleftrightarrow> list_ex is_box (badge_cmds e (flightcategory d))"
    "set (badge_cmds e (flightcategory d)) \<subseteq> set cmds"
    by blast
  moreover have "flightcategory d \<in> {''VFR'', ''MVFR''} \<longrightarrow>
      badge_cmds e (flightcategory d) = [Text (width e - 75, 15) (flightcategory d) GRAY1 Font24b]"
    by (auto simp: badge_cmds_def Let_def split: prod.splits)
  moreover have "flightcategory d \<in> {[], ''N/A''} \<longrightarrow>
      badge_cmds e (flightcategory d) = [Text (width e - 75, 15) ''N/A'' GRAY1 Font24b]"
    by (auto simp: badge_cmds_def Let_def split: prod.splits)
  moreover have "flightcategory d \<notin> {[], ''N/A'', ''VFR'', ''MVFR''} \<longrightarrow>
      badge_cmds e (flightcategory d) =
        [Rectangle (width e - 80) 10
           (width e - 75 + fst (textsize e (flightcategory d) Font24b) + 5)
           (15 + snd (textsize e (flightcategory d) Font24b) + 5) GRAY1,
         Text (width e - 75, 15) (flightcategory d) GRAY4 Font24b]"
    by (auto simp: badge_cmds_def Let_def split: prod.splits)
  ultimately show ?thesis
    unfolding badge_box by blast
qed

theorem flight_category_badge_witness:
  "\<exists>cmds. layout_wind example_env (Decoded vrb_report) 2 = Inr cmds
      \<and> list_ex is_box cmds
      \<and> Rectangle 320 10 366 40 GRAY1 \<in> set cmds
      \<and> Text (325, 15) ''IFR'' GRAY4 Font24b \<in> set cmds"
proof -
  from flight_category_badge [OF vrb_report_hyps(1,3,4), of 2] obtain cmds where c:
    "layout_wind example_env (Decoded vrb_report) 2 = Inr cmds"
    "list_ex is_box cmds \<longleftrightarrow> flightcategory vrb_report \<notin> {[], ''N/A'', ''VFR'', ''MVFR''}"
    "set (badge_cmds example_env (flightcategory vrb_report)) \<subseteq> set cmds"
    "flightcategory vrb_report \<notin> {[], ''N/A'', ''VFR'', ''MVFR''} \<longrightarrow>
       badge_cmds example_env (flightcategory vrb_report) =
         [Rectangle (width example_env - 80) 10
            (width example_env - 75 + fst (textsize example_env (flightcategory vrb_report) Font24b) + 5)
            (15 + snd (textsize example_env (flightcategory vrb_report) Font24b) + 5) GRAY1,
          Text (width example_env - 75, 15) (flightcategory vrb_report) GRAY4 Font24b]"
    by blast
  have "badge_cmds example_env ''IFR'' =
      [Rectangle 320 10 366 40 GRAY1, Text (325, 15) ''IFR'' GRAY4 Font24b]"
    using c(4) by (simp add: vrb_report_hyps(5) example_env_sel)
  with c(1,2,3) show ?thesis
    by (simp add: vrb_report_hyps(5))
qed

text \<open>
  A report without raw text has the category N/A (unknown): the badge is the plain text
  N/A and the render has no box.
\<close>

theorem badge_unknown_is_plain_text:
  "badge_cmds example_env ''N/A'' = [Text (325, 15) ''N/A'' GRAY1 Font24b]
   \<and> flightcategory (snd (the (metar_data NoRawText))) = ''N/A''
   \<and> map_sum id (filter is_box) (layout_wind example_env NoRawText 0) = Inr []"
  by code_simp

end
